theory Spec2Isabelle
  imports Complex_Main
begin

section \<open>The battery dashboards \<open>app.py\<close> and \<open>editapp.py\<close>\<close>

text \<open>
  Both files are Streamlit scripts: one top-to-bottom run per user interaction. A run reads
  the widgets (two integer sliders, one integer number input and, in \<open>editapp.py\<close>, a
  select box), computes a handful of arithmetic expressions and hands them to the charts.

  Conventions of the embedding:
  \<^item> the sliders and the number input return Python \<open>int\<close>s, modelled as \<open>int\<close>;
  \<^item> every Python \<open>float\<close> is modelled as a \<open>real\<close>. The health score is compared with
    the status thresholds, so the last binary place of it matters: the rounding of the
    operations that compute it (lines 20-21 of app.py, 24-25 of editapp.py) is carried
    in the model as the relative errors those operations committed. The other
    expressions are modelled in exact arithmetic;
  \<^item> the status labels are the strings of the source;
  \<^item> \<open>st.session_state\<close> is a dictionary, modelled as a map from keys to values, passed in
    and returned;
  \<^item> every random draw (\<open>random.randint\<close>, \<open>np.random.uniform\<close>) is a parameter of the
    model: the value the call returned.
  Definitions that carry no prefix are for lines that are the same in both files; the
  prefixes \<open>app_\<close> and \<open>editapp_\<close> mark the lines in which the files differ.
\<close>

subsection \<open>The health model\<close>

text \<open>
  \<^verbatim>\<open>degradation_factor = 1.2 ** (temp_input - 25)\<close> (app.py:20, editapp.py:24):
  the exact value of the expression.
\<close>

definition degradation_factor :: "int \<Rightarrow> real" where
  "degradation_factor temp_input = (12 / 10) powi (temp_input - 25)"

text \<open>
  The interpreter evaluates that line in binary64: the literal \<open>1.2\<close> is rounded and the
  power is rounded, so the float left in \<open>degradation_factor\<close> is the exact value times
  \<open>1 + err_pow\<close>. The product and the difference of the next line are rounded once each.
  A \<open>rounding\<close> holds the relative errors of one run of lines 20-21; \<open>no_rounding\<close> is a
  run in which every operation is exact.
\<close>

record rounding =
  err_pow :: real
  err_mul :: real
  err_sub :: real

definition no_rounding :: rounding where
  "no_rounding = \<lparr>err_pow = 0, err_mul = 0, err_sub = 0\<rparr>"

text \<open>
  What binary64 guarantees in the range of the sliders: a product and a difference are
  correctly rounded (relative error at most \<open>2 ^ -53\<close>); the power of the rounded literal,
  with an exponent from \<open>-5\<close> to 15, stays within \<open>2 ^ -50\<close> of the exact power.
\<close>

definition binary64_errors :: "rounding \<Rightarrow> bool" where
  "binary64_errors fl \<longleftrightarrow>
     \<bar>err_pow fl\<bar> \<le> 1 / 2 ^ 50 \<and> \<bar>err_mul fl\<bar> \<le> 1 / 2 ^ 53 \<and> \<bar>err_sub fl\<bar> \<le> 1 / 2 ^ 53"

definition fl_degradation_factor :: "rounding \<Rightarrow> int \<Rightarrow> real" where
  "fl_degradation_factor fl temp_input = degradation_factor temp_input * (1 + err_pow fl)"

text \<open>
  \<^verbatim>\<open>current_health = 100 - (time_projection * 8 * degradation_factor)\<close>
  \<^verbatim>\<open>current_health = max(0, min(100, current_health))\<close> (app.py:21-22).
  \<open>time_projection * 8\<close> is a product of two \<open>int\<close>s and exact; its product with the
  float and the difference from 100 round. \<open>max\<close> and \<open>min\<close> return one of their
  arguments and do not round.
\<close>

definition app_raw_health :: "rounding \<Rightarrow> int \<Rightarrow> int \<Rightarrow> real" where
  "app_raw_health fl temp_input time_projection =
     (100 - (real_of_int (time_projection * 8) * fl_degradation_factor fl temp_input)
              * (1 + err_mul fl))
       * (1 + err_sub fl)"

definition app_current_health :: "rounding \<Rightarrow> int \<Rightarrow> int \<Rightarrow> real" where
  "app_current_health fl temp_input time_projection =
     max 0 (min 100 (app_raw_health fl temp_input time_projection))"

text \<open>The same two lines of editapp.py:25-26, with the rate 6.\<close>

definition editapp_raw_health :: "rounding \<Rightarrow> int \<Rightarrow> int \<Rightarrow> real" where
  "editapp_raw_health fl temp_input time_projection =
     (100 - (real_of_int (time_projection * 6) * fl_degradation_factor fl temp_input)
              * (1 + err_mul fl))
       * (1 + err_sub fl)"

definition editapp_current_health :: "rounding \<Rightarrow> int \<Rightarrow> int \<Rightarrow> real" where
  "editapp_current_health fl temp_input time_projection =
     max 0 (min 100 (editapp_raw_health fl temp_input time_projection))"

text \<open>
  \<^verbatim>\<open>status = "CRITICAL" if current_health < 50 else "WARNING" if current_health < 75 else "HEALTHY"\<close>
  (app.py:31).
\<close>

definition app_status :: "real \<Rightarrow> string" where
  "app_status current_health =
     (if current_health < 50 then ''CRITICAL''
      else if current_health < 75 then ''WARNING''
      else ''HEALTHY'')"

text \<open>
  \<^verbatim>\<open>total_risk = (100 - current_health) * 31 * (replacement_cost / 100)\<close>
  (app.py:35, editapp.py:73); \<open>/\<close> is Python's true division.
\<close>

definition total_risk :: "real \<Rightarrow> int \<Rightarrow> real" where
  "total_risk current_health replacement_cost =
     (100 - current_health) * 31 * (real_of_int replacement_cost / 100)"

subsection \<open>The alerts of \<open>editapp.py\<close>\<close>

text \<open>
  editapp.py:39-66 computes the status and, in the same branches, fires the alerts and
  writes \<open>st.session_state.last_status\<close>. What a run shows to the user beyond the status
  label is the list of alerts it fired, in order: the critical toast, the audio tag that
  follows it, and the warning toast with the number of months drawn by
  \<^verbatim>\<open>random.randint(4, 7)\<close>.
\<close>

datatype alert = CriticalToast | AudioBeep | WarningToast int

type_synonym session_state = "string \<rightharpoonup> string"

record col2 =
  col2_status :: string
  col2_color :: string
  col2_alerts :: "alert list"
  col2_session :: session_state

definition editapp_col2 :: "real \<Rightarrow> int \<Rightarrow> session_state \<Rightarrow> col2" where
  "editapp_col2 current_health months_to_decay ss =
     (if current_health < 50 then
        (if ss ''last_status'' \<noteq> Some ''CRITICAL''
         then \<lparr>col2_status = ''CRITICAL'', col2_color = ''red'',
               col2_alerts = [CriticalToast, AudioBeep],
               col2_session = ss(''last_status'' \<mapsto> ''CRITICAL'')\<rparr>
         else \<lparr>col2_status = ''CRITICAL'', col2_color = ''red'',
               col2_alerts = [], col2_session = ss\<rparr>)
      else if current_health < 60 then
        (if ss ''last_status'' \<noteq> Some ''WARNING''
         then \<lparr>col2_status = ''WARNING'', col2_color = ''orange'',
               col2_alerts = [WarningToast months_to_decay],
               col2_session = ss(''last_status'' \<mapsto> ''WARNING'')\<rparr>
         else \<lparr>col2_status = ''WARNING'', col2_color = ''orange'',
               col2_alerts = [], col2_session = ss\<rparr>)
      else \<lparr>col2_status = ''HEALTHY'', col2_color = ''green'',
             col2_alerts = [], col2_session = ss(''last_status'' \<mapsto> ''HEALTHY'')\<rparr>)"

text \<open>
  Successive runs of the script in one session: each run gets the health it computed and
  the month count it would draw, and hands its session state to the next run.
\<close>

fun editapp_reruns :: "session_state \<Rightarrow> (real \<times> int) list \<Rightarrow> col2 list" where
  "editapp_reruns ss [] = []"
| "editapp_reruns ss ((current_health, months_to_decay) # rest) =
     (let r = editapp_col2 current_health months_to_decay ss
      in r # editapp_reruns (col2_session r) rest)"

subsection \<open>The decay curve\<close>

text \<open>
  \<^verbatim>\<open>months = np.arange(0, 25)\<close>
  \<^verbatim>\<open>health_curve = 100 - (months * 2 * degradation_factor)\<close> (app.py:64-65,
  editapp.py:102-103); the arithmetic on the array is elementwise.
\<close>

definition months :: "nat list" where
  "months = [0..<25]"

definition health_curve :: "real \<Rightarrow> real list" where
  "health_curve d = map (\<lambda>m. 100 - (real m * 2 * d)) months"

subsection \<open>The block grid\<close>

text \<open>
  app.py:76-83 and editapp.py:114-121: a loop of 30 rounds, each drawing
  \<^verbatim>\<open>np.random.uniform(0.8, 1.2)\<close> and appending \<^verbatim>\<open>max(0, block_health)\<close>. The
  draws are the parameter \<open>jitter\<close>: \<open>jitter i\<close> is the value drawn in round \<open>i\<close>.
\<close>

definition block_health :: "int \<Rightarrow> real \<Rightarrow> real \<Rightarrow> real" where
  "block_health time_projection d individual_variance =
     100 - (real_of_int time_projection * 8 * d * individual_variance)"

fun grid_loop :: "int \<Rightarrow> real \<Rightarrow> (nat \<Rightarrow> real) \<Rightarrow> nat list \<Rightarrow> real list \<Rightarrow> real list" where
  "grid_loop time_projection d jitter [] grid = grid"
| "grid_loop time_projection d jitter (i # is) grid =
     grid_loop time_projection d jitter is
       (grid @ [max 0 (block_health time_projection d (jitter i))])"

definition grid_health :: "int \<Rightarrow> real \<Rightarrow> (nat \<Rightarrow> real) \<Rightarrow> real list" where
  "grid_health time_projection d jitter = grid_loop time_projection d jitter [0..<30] []"

text \<open>
  \<^verbatim>\<open>np.array(grid_health).reshape(6, 5)\<close>: numpy raises \<open>ValueError\<close> unless the
  array has \<open>6 * 5\<close> elements, and otherwise cuts it into rows, in order.
\<close>

datatype error = ValueError

fun rows_of :: "nat \<Rightarrow> 'a list \<Rightarrow> 'a list list" where
  "rows_of 0 xs = []"
| "rows_of (Suc r) xs = take 5 xs # rows_of r (drop 5 xs)"

definition reshape_6_5 :: "'a list \<Rightarrow> error + 'a list list" where
  "reshape_6_5 xs = (if length xs = 6 * 5 then Inr (rows_of 6 xs) else Inl ValueError)"

definition grid_data :: "int \<Rightarrow> real \<Rightarrow> (nat \<Rightarrow> real) \<Rightarrow> error + real list list" where
  "grid_data time_projection d jitter = reshape_6_5 (grid_health time_projection d jitter)"

subsection \<open>A whole run of \<open>editapp.py\<close>\<close>

text \<open>
  \<^verbatim>\<open>available_blocks = [f"Block_{i+1}" for i in range(30)]\<close> (editapp.py:14) and the
  select box over it; the decimal digits of a number are written out by \<open>digits\<close>.
\<close>

fun digits :: "nat \<Rightarrow> string" where
  "digits n =
     (if n < 10 then [char_of (48 + n)]
      else digits (n div 10) @ [char_of (48 + n mod 10)])"

definition available_blocks :: "string list" where
  "available_blocks = map (\<lambda>i. ''Block_'' @ digits (i + 1)) [0..<30]"

record inputs =
  selected_block :: string
  temp_input :: int
  time_projection :: int
  replacement_cost :: int

record draws =
  months_to_decay :: int
  jitter :: "nat \<Rightarrow> real"

record outputs =
  out_health :: real
  out_status :: string
  out_color :: string
  out_alerts :: "alert list"
  out_session :: session_state
  out_risk :: real
  out_gauge :: real
  out_curve :: "real list"
  out_line_color :: string
  out_grid :: "error + real list list"

definition editapp :: "rounding \<Rightarrow> inputs \<Rightarrow> draws \<Rightarrow> session_state \<Rightarrow> outputs" where
  "editapp fl inp rnd ss =
     (let d = fl_degradation_factor fl (temp_input inp);
          current_health = editapp_current_health fl (temp_input inp) (time_projection inp);
          c2 = editapp_col2 current_health (months_to_decay rnd) ss
      in \<lparr>out_health = current_health,
          out_status = col2_status c2,
          out_color = col2_color c2,
          out_alerts = col2_alerts c2,
          out_session = col2_session c2,
          out_risk = total_risk current_health (replacement_cost inp),
          out_gauge = 100 - current_health,
          out_curve = health_curve d,
          out_line_color = (if current_health < 50 then ''red'' else ''green''),
          out_grid = grid_data (time_projection inp) d (jitter rnd)\<rparr>)"

section \<open>Properties\<close>

subsection \<open>Auxiliary facts\<close>

lemma degradation_factor_pos: "0 < degradation_factor t"
  by (simp add: degradation_factor_def)

lemma degradation_factor_strict_mono: "s < t \<Longrightarrow> degradation_factor s < degradation_factor t"
  unfolding degradation_factor_def by (rule power_int_strict_increasing) simp_all

lemma degradation_factor_40: "15 < degradation_factor 40"
  by (simp add: degradation_factor_def power_divide)

lemma app_raw_health_40_9:
  assumes "binary64_errors fl"
  shows "app_raw_health fl 40 9 < 0"
proof -
  have p: "99 / 100 \<le> 1 + err_pow fl" and m: "99 / 100 \<le> 1 + err_mul fl"
    and s: "0 < 1 + err_sub fl"
  proof -
    have "\<bar>err_pow fl\<bar> \<le> 1 / 2 ^ 50" and "\<bar>err_mul fl\<bar> \<le> 1 / 2 ^ 53"
      and "\<bar>err_sub fl\<bar> \<le> 1 / 2 ^ 53"
      using assms by (simp_all only: binary64_errors_def)
    moreover have "(1::real) / 2 ^ 50 \<le> 1 / 100" and "(1::real) / 2 ^ 53 \<le> 1 / 100"
      by simp_all
    ultimately show "99 / 100 \<le> 1 + err_pow fl" and "99 / 100 \<le> 1 + err_mul fl"
      and "0 < 1 + err_sub fl"
      by linarith+
  qed
  define D where "D = degradation_factor 40 * (1 + err_pow fl)"
  define M where "M = 72 * D * (1 + err_mul fl)"
  have D: "15 * (99 / 100) \<le> D"
    unfolding D_def using degradation_factor_40 p by (intro mult_mono) simp_all
  then have "72 * (15 * (99 / 100)) \<le> 72 * D"
    by linarith
  then have "72 * (15 * (99 / 100)) * (99 / 100) \<le> M"
    unfolding M_def using m by (intro mult_mono) simp_all
  then have "100 - M < 0"
    by simp
  then have "(100 - M) * (1 + err_sub fl) < 0"
    using s by (rule mult_neg_pos)
  moreover have "app_raw_health fl 40 9 = (100 - M) * (1 + err_sub fl)"
    by (simp add: app_raw_health_def fl_degradation_factor_def M_def D_def)
  ultimately show ?thesis
    by simp
qed

lemma app_current_health_40_9:
  "binary64_errors fl \<Longrightarrow> app_current_health fl 40 9 = 0"
  using app_raw_health_40_9 [of fl] by (simp add: app_current_health_def)

text \<open>
  Why the rounding is carried. At 23 degrees and 9 years the exact value of the
  expression is 50, on the WARNING side of the threshold. The binary64 run rounds the
  power up by \<open>7 / 56294995342131200\<close> and the product up by \<open>1 / 56294995342131207\<close>;
  the difference is exact. The float it leaves is \<open>49.99999999999999\<close>, and app.py:31
  shows CRITICAL.
\<close>

lemma app_health_23_9_exact:
  "app_current_health no_rounding 23 9 = 50"
  by (simp add: app_current_health_def app_raw_health_def fl_degradation_factor_def
      degradation_factor_def no_rounding_def power_int_def power_divide)

lemma app_health_23_9_binary64:
  "binary64_errors \<lparr>err_pow = 7 / 56294995342131200, err_mul = 1 / 56294995342131207,
     err_sub = 0\<rparr> \<and>
   app_current_health \<lparr>err_pow = 7 / 56294995342131200, err_mul = 1 / 56294995342131207,
     err_sub = 0\<rparr> 23 9 = 7036874417766399 / 140737488355328 \<and>
   app_status (app_current_health \<lparr>err_pow = 7 / 56294995342131200,
     err_mul = 1 / 56294995342131207, err_sub = 0\<rparr> 23 9) = ''CRITICAL''"
  by (simp add: binary64_errors_def app_current_health_def app_raw_health_def
      fl_degradation_factor_def degradation_factor_def power_int_def power_divide
      app_status_def)

subsection \<open>The health score and the status\<close>

text \<open>
  Claim C1. The health score of both files is the raw value
  \<open>100 - years * rate * 1.2 ^ (tempC - 25)\<close> (rate 8 in app.py, 6 in editapp.py), as
  the binary64 operations compute it, clamped below at 0 and above at 100; so it lies in
  \<open>[0, 100]\<close> for every input, in particular for every input the sliders allow, whatever
  the operations round. Without rounding the raw value is the exact value of that
  expression. At \<open>tempC = 40\<close>, \<open>years = 9\<close> and rate 8 the raw value is negative, the
  score is 0 and the status is CRITICAL, for every rounding binary64 can commit.
\<close>

theorem health_percent_clamped:
  "0 \<le> app_current_health fl t y \<and> app_current_health fl t y \<le> 100 \<and>
   app_current_health fl t y =
     max 0 (min 100
       ((100 - real_of_int (y * 8) * ((12 / 10) powi (t - 25) * (1 + err_pow fl))
                 * (1 + err_mul fl)) * (1 + err_sub fl))) \<and>
   app_raw_health no_rounding t y = 100 - real_of_int y * 8 * (12 / 10) powi (t - 25) \<and>
   0 \<le> editapp_current_health fl t y \<and> editapp_current_health fl t y \<le> 100 \<and>
   editapp_current_health fl t y =
     max 0 (min 100
       ((100 - real_of_int (y * 6) * ((12 / 10) powi (t - 25) * (1 + err_pow fl))
                 * (1 + err_mul fl)) * (1 + err_sub fl))) \<and>
   editapp_raw_health no_rounding t y = 100 - real_of_int y * 6 * (12 / 10) powi (t - 25) \<and>
   (binary64_errors fl \<longrightarrow>
      app_raw_health fl 40 9 < 0 \<and> app_current_health fl 40 9 = 0 \<and>
      app_status (app_current_health fl 40 9) = ''CRITICAL'')"
proof -
  have "0 \<le> app_current_health fl t y \<and> app_current_health fl t y \<le> 100"
    by (simp add: app_current_health_def)
  moreover have "app_current_health fl t y =
      max 0 (min 100
        ((100 - real_of_int (y * 8) * ((12 / 10) powi (t - 25) * (1 + err_pow fl))
                  * (1 + err_mul fl)) * (1 + err_sub fl)))"
    by (simp only: app_current_health_def app_raw_health_def fl_degradation_factor_def
        degradation_factor_def)
  moreover have "app_raw_health no_rounding t y =
      100 - real_of_int y * 8 * (12 / 10) powi (t - 25)"
    by (simp add: app_raw_health_def fl_degradation_factor_def degradation_factor_def
        no_rounding_def)
  moreover have "0 \<le> editapp_current_health fl t y \<and> editapp_current_health fl t y \<le> 100"
    by (simp add: editapp_current_health_def)
  moreover have "editapp_current_health fl t y =
      max 0 (min 100
        ((100 - real_of_int (y * 6) * ((12 / 10) powi (t - 25) * (1 + err_pow fl))
                  * (1 + err_mul fl)) * (1 + err_sub fl)))"
    by (simp only: editapp_current_health_def editapp_raw_health_def
        fl_degradation_factor_def degradation_factor_def)
  moreover have "editapp_raw_health no_rounding t y =
      100 - real_of_int y * 6 * (12 / 10) powi (t - 25)"
    by (simp add: editapp_raw_health_def fl_degradation_factor_def degradation_factor_def
        no_rounding_def)
  moreover have "binary64_errors fl \<longrightarrow>
      app_raw_health fl 40 9 < 0 \<and> app_current_health fl 40 9 = 0 \<and>
      app_status (app_current_health fl 40 9) = ''CRITICAL''"
    using app_raw_health_40_9 [of fl] app_current_health_40_9 [of fl]
    by (simp add: app_status_def)
  ultimately show ?thesis
    by blast
qed

theorem health_percent_clamped_witness:
  "binary64_errors \<lparr>err_pow = 1 / 2 ^ 51, err_mul = - (1 / 2 ^ 53), err_sub = 1 / 2 ^ 54\<rparr> \<and>
   app_raw_health \<lparr>err_pow = 1 / 2 ^ 51, err_mul = - (1 / 2 ^ 53), err_sub = 1 / 2 ^ 54\<rparr>
     40 9 < 0 \<and>
   app_current_health \<lparr>err_pow = 1 / 2 ^ 51, err_mul = - (1 / 2 ^ 53), err_sub = 1 / 2 ^ 54\<rparr>
     40 9 = 0 \<and>
   app_status (app_current_health
     \<lparr>err_pow = 1 / 2 ^ 51, err_mul = - (1 / 2 ^ 53), err_sub = 1 / 2 ^ 54\<rparr> 40 9) =
     ''CRITICAL''"
proof -
  have b: "binary64_errors
      \<lparr>err_pow = 1 / 2 ^ 51, err_mul = - (1 / 2 ^ 53), err_sub = 1 / 2 ^ 54\<rparr>"
    by (simp add: binary64_errors_def)
  show ?thesis
    using b health_percent_clamped
      [of "\<lparr>err_pow = 1 / 2 ^ 51, err_mul = - (1 / 2 ^ 53), err_sub = 1 / 2 ^ 54\<rparr>" 40 9]
    by blast
qed

text \<open>
  Claim C2. The status is a threshold function of the health score: CRITICAL exactly below
  50, WARNING exactly from 50 up to the threshold (75 in app.py, 60 in editapp.py), HEALTHY
  exactly from the threshold on. In editapp.py the status does not depend on the session
  state or on the month draw.
\<close>

theorem status_thresholds:
  "(app_status h = ''CRITICAL'' \<longleftrightarrow> h < 50) \<and>
   (app_status h = ''WARNING'' \<longleftrightarrow> 50 \<le> h \<and> h < 75) \<and>
   (app_status h = ''HEALTHY'' \<longleftrightarrow> 75 \<le> h) \<and>
   (col2_status (editapp_col2 h m ss) = ''CRITICAL'' \<longleftrightarrow> h < 50) \<and>
   (col2_status (editapp_col2 h m ss) = ''WARNING'' \<longleftrightarrow> 50 \<le> h \<and> h < 60) \<and>
   (col2_status (editapp_col2 h m ss) = ''HEALTHY'' \<longleftrightarrow> 60 \<le> h)"
  by (simp add: app_status_def editapp_col2_def)

subsection \<open>The risk value\<close>

text \<open>
  Claim C5, as the specification states it, fails: with a replacement cost of 0 (within
  the documented bound \<open>cost \<ge> 0\<close>) the risk value is 0 although the health score of
  app.py at 25 degrees and 1 year is 92, not 100. No operation of that run rounds:
  \<open>1.2 ** 0\<close> is \<open>1.0\<close>, \<open>8 * 1.0\<close> is \<open>8.0\<close> and \<open>100 - 8.0\<close> is \<open>92.0\<close>.
\<close>

theorem risk_zero_counterexample:
  "(0::int) \<le> 0 \<and> total_risk (app_current_health no_rounding 25 1) 0 = 0 \<and>
   app_current_health no_rounding 25 1 = 92 \<and>
   app_current_health no_rounding 25 1 \<noteq> 100"
  by (simp add: total_risk_def app_current_health_def app_raw_health_def
      fl_degradation_factor_def degradation_factor_def no_rounding_def)

text \<open>
  Claim C5, amended. The risk value is \<open>(100 - healthPercent) * 31 * (cost / 100)\<close>, and
  it is 0 exactly when the health score is 100 or the cost is 0.
\<close>

theorem risk_value:
  "total_risk h c = (100 - h) * 31 * (real_of_int c / 100) \<and>
   (total_risk h c = 0 \<longleftrightarrow> h = 100 \<or> c = 0)"
  by (simp add: total_risk_def)

theorem risk_value_witness:
  "total_risk 100 500 = 0 \<and> total_risk 92 0 = 0 \<and> total_risk 92 500 \<noteq> 0"
  using risk_value [of 100 500] risk_value [of 92 0] risk_value [of 92 500] by simp

subsection \<open>The degradation factor\<close>

text \<open>
  Claim C6, as the specification states it, fails below 25 degrees: the factor is not
  decreasing in the temperature there. Between 20 and 21 degrees, both below 25, it grows
  from \<open>3125 / 7776\<close> to \<open>625 / 1296\<close>.
\<close>

theorem degradation_factor_decreasing_counterexample:
  "(20::int) < 21 \<and> (21::int) < 25 \<and> degradation_factor 20 = 3125 / 7776 \<and>
   degradation_factor 21 = 625 / 1296 \<and> \<not> degradation_factor 21 < degradation_factor 20"
  by (simp add: degradation_factor_def power_int_def power_divide)

text \<open>
  Claim C6, amended. The degradation factor is exactly 1 at 25 degrees and strictly
  increasing in the temperature everywhere, below 25 degrees as well as above; so it is
  above 1 for temperatures above 25 and (positive and) below 1 for temperatures below 25.
\<close>

theorem degradation_factor_monotone:
  "degradation_factor 25 = 1 \<and>
   (s < t \<longrightarrow> degradation_factor s < degradation_factor t) \<and>
   (25 < t \<longrightarrow> 1 < degradation_factor t) \<and>
   (t < 25 \<longrightarrow> 0 < degradation_factor t \<and> degradation_factor t < 1)"
proof -
  have one: "degradation_factor 25 = 1"
    by (simp add: degradation_factor_def)
  have "25 < t \<longrightarrow> 1 < degradation_factor t"
    using degradation_factor_strict_mono [of 25 t] by (simp add: one)
  moreover have "t < 25 \<longrightarrow> 0 < degradation_factor t \<and> degradation_factor t < 1"
    using degradation_factor_strict_mono [of t 25] degradation_factor_pos [of t]
    by (simp add: one)
  ultimately show ?thesis
    using one degradation_factor_strict_mono [of s t] by blast
qed

theorem degradation_factor_monotone_witness:
  "(20::int) < 21 \<and> degradation_factor 20 < degradation_factor 21 \<and>
   (25::int) < 40 \<and> 1 < degradation_factor 40 \<and>
   (20::int) < 25 \<and> 0 < degradation_factor 20 \<and> degradation_factor 20 < 1"
  using degradation_factor_monotone [of 20 21] degradation_factor_monotone [of 0 40]
    degradation_factor_monotone [of 0 20]
  by simp

subsection \<open>The decay curve\<close>

text \<open>
  Claim C7. For every degradation factor the decay curve has 25 points, the point of
  month \<open>m\<close> (0 to 24) is \<open>100 - m * 2 * degradationFactor\<close> as it is, with no clamping,
  and the point of month 0 is exactly 100.
\<close>

theorem decay_curve:
  "length (health_curve d) = 25 \<and>
   (\<forall>m<25. health_curve d ! m = 100 - real m * 2 * d) \<and>
   health_curve d ! 0 = 100"
  by (simp add: health_curve_def months_def)

text \<open>Values below 0 and above 100 stay in the curve.\<close>

theorem decay_curve_witness:
  "(24::nat) < 25 \<and> health_curve 3 ! 24 = - 44 \<and> (1::nat) < 25 \<and> health_curve (- 1) ! 1 = 102"
  using decay_curve [of 3] decay_curve [of "- 1"] by simp

subsection \<open>The alert state machine of \<open>editapp.py\<close>\<close>

lemma reruns_length: "length (editapp_reruns ss xs) = length xs"
  by (induction xs arbitrary: ss) (auto simp: Let_def)

lemma col2_healthy:
  "col2_status (editapp_col2 h m ss) = ''HEALTHY'' \<Longrightarrow>
     col2_alerts (editapp_col2 h m ss) = [] \<and>
     col2_session (editapp_col2 h m ss) ''last_status'' = Some ''HEALTHY''"
  by (simp add: editapp_col2_def split: if_splits)

lemma col2_warning_new:
  "col2_status (editapp_col2 h m ss) = ''WARNING'' \<Longrightarrow>
   ss ''last_status'' \<noteq> Some ''WARNING'' \<Longrightarrow>
     col2_alerts (editapp_col2 h m ss) = [WarningToast m] \<and>
     col2_session (editapp_col2 h m ss) ''last_status'' = Some ''WARNING''"
  by (simp add: editapp_col2_def split: if_splits)

lemma col2_warning_same:
  "col2_status (editapp_col2 h m ss) = ''WARNING'' \<Longrightarrow>
   ss ''last_status'' = Some ''WARNING'' \<Longrightarrow>
     col2_alerts (editapp_col2 h m ss) = [] \<and>
     col2_session (editapp_col2 h m ss) ''last_status'' = Some ''WARNING''"
  by (simp add: editapp_col2_def split: if_splits)

lemma col2_critical_new:
  "col2_status (editapp_col2 h m ss) = ''CRITICAL'' \<Longrightarrow>
   ss ''last_status'' \<noteq> Some ''CRITICAL'' \<Longrightarrow>
     col2_alerts (editapp_col2 h m ss) = [CriticalToast, AudioBeep] \<and>
     col2_session (editapp_col2 h m ss) ''last_status'' = Some ''CRITICAL''"
  by (simp add: editapp_col2_def split: if_splits)

lemma five_statuses_alerts:
  assumes init: "ss ''last_status'' = None"
    and sts: "map col2_status (editapp_reruns ss xs) =
       [''HEALTHY'', ''WARNING'', ''WARNING'', ''CRITICAL'', ''WARNING'']"
  shows "map col2_alerts (editapp_reruns ss xs) =
     [[], [WarningToast (snd (xs ! 1))], [], [CriticalToast, AudioBeep],
      [WarningToast (snd (xs ! 4))]]"
proof -
  have "length (map col2_status (editapp_reruns ss xs)) = 5"
    by (simp only: sts) simp
  then have "length xs = 5"
    by (simp add: reruns_length)
  then obtain x0 x1 x2 x3 x4 where "xs = [x0, x1, x2, x3, x4]"
    by (auto simp: length_Suc_conv eval_nat_numeral)
  then obtain h0 m0 h1 m1 h2 m2 h3 m3 h4 m4
    where xs: "xs = [(h0, m0), (h1, m1), (h2, m2), (h3, m3), (h4, m4)]"
    by (metis surj_pair)
  define r0 where "r0 = editapp_col2 h0 m0 ss"
  define r1 where "r1 = editapp_col2 h1 m1 (col2_session r0)"
  define r2 where "r2 = editapp_col2 h2 m2 (col2_session r1)"
  define r3 where "r3 = editapp_col2 h3 m3 (col2_session r2)"
  define r4 where "r4 = editapp_col2 h4 m4 (col2_session r3)"
  have runs: "editapp_reruns ss xs = [r0, r1, r2, r3, r4]"
    by (simp add: xs Let_def r0_def r1_def r2_def r3_def r4_def)
  from sts have s0: "col2_status r0 = ''HEALTHY''" and s1: "col2_status r1 = ''WARNING''"
    and s2: "col2_status r2 = ''WARNING''" and s3: "col2_status r3 = ''CRITICAL''"
    and s4: "col2_status r4 = ''WARNING''"
    by (simp_all only: runs list.map list.inject)
  have a0: "col2_alerts r0 = []" and l0: "col2_session r0 ''last_status'' = Some ''HEALTHY''"
    using col2_healthy s0 unfolding r0_def by blast+
  have a1: "col2_alerts r1 = [WarningToast m1]"
    and l1: "col2_session r1 ''last_status'' = Some ''WARNING''"
    using col2_warning_new [of h1 m1 "col2_session r0"] s1 l0 unfolding r1_def by simp_all
  have a2: "col2_alerts r2 = []" and l2: "col2_session r2 ''last_status'' = Some ''WARNING''"
    using col2_warning_same [of h2 m2 "col2_session r1"] s2 l1 unfolding r2_def by simp_all
  have a3: "col2_alerts r3 = [CriticalToast, AudioBeep]"
    and l3: "col2_session r3 ''last_status'' = Some ''CRITICAL''"
    using col2_critical_new [of h3 m3 "col2_session r2"] s3 l2 unfolding r3_def by simp_all
  have a4: "col2_alerts r4 = [WarningToast m4]"
    using col2_warning_new [of h4 m4 "col2_session r3"] s4 l3 unfolding r4_def by simp_all
  show ?thesis
    by (simp add: runs a0 a1 a2 a3 a4) (simp add: xs)
qed

text \<open>
  Claim C3, as the specification states it, fails when the new status is HEALTHY: that
  branch (editapp.py:62-66) fires nothing. A first run with health 55 records WARNING; the
  next run with health 80 has the status HEALTHY, which differs from the recorded WARNING,
  and emits no notification.
\<close>

theorem alert_on_change_counterexample:
  "map col2_status (editapp_reruns Map.empty [(55, 5), (80, 5)]) = [''WARNING'', ''HEALTHY''] \<and>
   map col2_alerts (editapp_reruns Map.empty [(55, 5), (80, 5)]) = [[WarningToast 5], []] \<and>
   map (\<lambda>r. col2_session r ''last_status'') (editapp_reruns Map.empty [(55, 5), (80, 5)]) =
     [Some ''WARNING'', Some ''HEALTHY'']"
  by (simp add: editapp_col2_def Let_def)

text \<open>
  Claim C3, amended. On each recomputation, for every recorded status (absent or any
  string) and every new status: when the new status is WARNING or CRITICAL and differs
  from the recorded one, a notification is emitted (the warning toast, or the critical
  toast followed by the audio cue) and the recorded status becomes the new status; when
  the new status is HEALTHY nothing is emitted and the recorded status becomes HEALTHY;
  when the new status equals the recorded one nothing is emitted and the session state is
  unchanged.
\<close>

theorem alert_step:
  "(col2_status (editapp_col2 h m ss) \<noteq> ''HEALTHY'' \<and>
    ss ''last_status'' \<noteq> Some (col2_status (editapp_col2 h m ss)) \<longrightarrow>
      col2_alerts (editapp_col2 h m ss) =
        (if col2_status (editapp_col2 h m ss) = ''CRITICAL''
         then [CriticalToast, AudioBeep] else [WarningToast m]) \<and>
      col2_session (editapp_col2 h m ss) =
        ss(''last_status'' \<mapsto> col2_status (editapp_col2 h m ss))) \<and>
   (col2_status (editapp_col2 h m ss) = ''HEALTHY'' \<longrightarrow>
      col2_alerts (editapp_col2 h m ss) = [] \<and>
      col2_session (editapp_col2 h m ss) = ss(''last_status'' \<mapsto> ''HEALTHY'')) \<and>
   (ss ''last_status'' = Some (col2_status (editapp_col2 h m ss)) \<longrightarrow>
      col2_alerts (editapp_col2 h m ss) = [] \<and> col2_session (editapp_col2 h m ss) = ss)"
  by (auto simp: editapp_col2_def)

theorem alert_step_witness:
  "col2_status (editapp_col2 40 5 [''last_status'' \<mapsto> ''WARNING'']) = ''CRITICAL'' \<and>
   col2_alerts (editapp_col2 40 5 [''last_status'' \<mapsto> ''WARNING'']) = [CriticalToast, AudioBeep] \<and>
   col2_session (editapp_col2 40 5 [''last_status'' \<mapsto> ''WARNING'']) ''last_status'' =
     Some ''CRITICAL'' \<and>
   col2_status (editapp_col2 55 5 Map.empty) = ''WARNING'' \<and>
   col2_alerts (editapp_col2 55 5 Map.empty) = [WarningToast 5] \<and>
   col2_status (editapp_col2 80 5 [''last_status'' \<mapsto> ''WARNING'']) = ''HEALTHY'' \<and>
   col2_alerts (editapp_col2 80 5 [''last_status'' \<mapsto> ''WARNING'']) = [] \<and>
   col2_session (editapp_col2 80 5 [''last_status'' \<mapsto> ''WARNING'']) ''last_status'' =
     Some ''HEALTHY'' \<and>
   col2_status (editapp_col2 40 5 [''last_status'' \<mapsto> ''CRITICAL'']) = ''CRITICAL'' \<and>
   col2_alerts (editapp_col2 40 5 [''last_status'' \<mapsto> ''CRITICAL'']) = [] \<and>
   col2_session (editapp_col2 40 5 [''last_status'' \<mapsto> ''CRITICAL'']) =
     [''last_status'' \<mapsto> ''CRITICAL'']"
proof -
  have s1: "col2_status (editapp_col2 40 5 [''last_status'' \<mapsto> ''WARNING'']) = ''CRITICAL''"
    and s2: "col2_status (editapp_col2 55 5 Map.empty) = ''WARNING''"
    and s3: "col2_status (editapp_col2 80 5 [''last_status'' \<mapsto> ''WARNING'']) = ''HEALTHY''"
    and s4: "col2_status (editapp_col2 40 5 [''last_status'' \<mapsto> ''CRITICAL'']) = ''CRITICAL''"
    by (simp_all add: editapp_col2_def)
  show ?thesis
    using alert_step [of 40 5 "[''last_status'' \<mapsto> ''WARNING'']"]
      alert_step [of 55 5 Map.empty]
      alert_step [of 80 5 "[''last_status'' \<mapsto> ''WARNING'']"]
      alert_step [of 40 5 "[''last_status'' \<mapsto> ''CRITICAL'']"]
    by (simp add: s1 s2 s3 s4)
qed

text \<open>
  Claim C4. Started with no recorded status, runs whose statuses are HEALTHY, WARNING,
  WARNING, CRITICAL, WARNING emit at index 1 (the warning toast), at index 3 (the critical
  toast and the audio cue) and at index 4 (the warning toast), and nothing at indices 0
  and 2. The first run of a session emits exactly when its status is WARNING or CRITICAL.
\<close>

theorem alert_sequence:
  assumes "ss ''last_status'' = None"
  shows "(map col2_status (editapp_reruns ss xs) =
            [''HEALTHY'', ''WARNING'', ''WARNING'', ''CRITICAL'', ''WARNING''] \<longrightarrow>
          map col2_alerts (editapp_reruns ss xs) =
            [[], [WarningToast (snd (xs ! 1))], [], [CriticalToast, AudioBeep],
             [WarningToast (snd (xs ! 4))]]) \<and>
         (col2_alerts (editapp_col2 h m ss) \<noteq> [] \<longleftrightarrow>
          col2_status (editapp_col2 h m ss) \<in> {''WARNING'', ''CRITICAL''})"
proof (intro conjI impI)
  assume "map col2_status (editapp_reruns ss xs) =
      [''HEALTHY'', ''WARNING'', ''WARNING'', ''CRITICAL'', ''WARNING'']"
  with assms show "map col2_alerts (editapp_reruns ss xs) =
      [[], [WarningToast (snd (xs ! 1))], [], [CriticalToast, AudioBeep],
       [WarningToast (snd (xs ! 4))]]"
    by (rule five_statuses_alerts)
next
  show "col2_alerts (editapp_col2 h m ss) \<noteq> [] \<longleftrightarrow>
      col2_status (editapp_col2 h m ss) \<in> {''WARNING'', ''CRITICAL''}"
    using assms by (simp add: editapp_col2_def)
qed

theorem alert_sequence_witness:
  "(Map.empty :: session_state) ''last_status'' = None \<and>
   map col2_status (editapp_reruns Map.empty [(80, 5), (55, 6), (58, 4), (40, 7), (55, 4)]) =
     [''HEALTHY'', ''WARNING'', ''WARNING'', ''CRITICAL'', ''WARNING''] \<and>
   map col2_alerts (editapp_reruns Map.empty [(80, 5), (55, 6), (58, 4), (40, 7), (55, 4)]) =
     [[], [WarningToast 6], [], [CriticalToast, AudioBeep], [WarningToast 4]] \<and>
   col2_alerts (editapp_col2 80 5 Map.empty) = [] \<and>
   col2_alerts (editapp_col2 40 5 Map.empty) \<noteq> []"
proof -
  have sts: "map col2_status
      (editapp_reruns Map.empty [(80, 5), (55, 6), (58, 4), (40, 7), (55, 4)]) =
      [''HEALTHY'', ''WARNING'', ''WARNING'', ''CRITICAL'', ''WARNING'']"
    by (simp add: editapp_col2_def Let_def)
  have s1: "col2_status (editapp_col2 80 5 Map.empty) = ''HEALTHY''"
    and s2: "col2_status (editapp_col2 40 5 Map.empty) = ''CRITICAL''"
    by (simp_all add: editapp_col2_def)
  show ?thesis
    using sts
      alert_sequence [of Map.empty "[(80, 5), (55, 6), (58, 4), (40, 7), (55, 4)]" 80 5]
      alert_sequence [of Map.empty "[]" 40 5]
    by (simp add: s1 s2)
qed

subsection \<open>The block grid\<close>

lemma grid_loop_eq:
  "grid_loop y d j is g = g @ map (\<lambda>i. max 0 (block_health y d (j i))) is"
  by (induction "is" arbitrary: g) simp_all

lemma grid_health_eq:
  "grid_health y d j = map (\<lambda>i. max 0 (block_health y d (j i))) [0..<30]"
  by (simp add: grid_health_def grid_loop_eq)

lemma rows_of_length: "length (rows_of r xs) = r"
  by (induction r arbitrary: xs) simp_all

lemma rows_of_nth: "k < r \<Longrightarrow> rows_of r xs ! k = take 5 (drop (5 * k) xs)"
proof (induction r arbitrary: xs k)
  case 0
  then show ?case by simp
next
  case (Suc r)
  show ?case
  proof (cases k)
    case 0
    then show ?thesis by simp
  next
    case (Suc k')
    with Suc.prems have "k' < r" by simp
    from Suc.IH [OF this, of "drop 5 xs"] Suc show ?thesis
      by (simp add: add.commute)
  qed
qed

text \<open>
  Claim C8. For every number of years, every degradation factor and every sequence of
  jitter draws (in particular draws in \<open>[0.8, 1.2]\<close>), the loop produces exactly 30
  values, value \<open>i\<close> being \<open>max(0, 100 - years * 8 * degradationFactor * jitter i)\<close>: rate
  8 in both files, clamped below only. The reshape succeeds and gives 6 rows of 5 columns
  in row-major order: entry \<open>(r, c)\<close> is value \<open>5 * r + c\<close>.
\<close>

theorem block_grid:
  "length (grid_health y d j) = 30 \<and>
   (\<forall>i<30. grid_health y d j ! i = max 0 (100 - real_of_int y * 8 * d * j i)) \<and>
   (\<exists>rows. grid_data y d j = Inr rows \<and> length rows = 6 \<and>
      (\<forall>r<6. length (rows ! r) = 5 \<and>
         (\<forall>c<5. rows ! r ! c = grid_health y d j ! (5 * r + c))))"
proof -
  have len: "length (grid_health y d j) = 30"
    by (simp add: grid_health_eq)
  have vals: "\<forall>i<30. grid_health y d j ! i = max 0 (100 - real_of_int y * 8 * d * j i)"
    by (simp add: grid_health_eq block_health_def)
  have gd: "grid_data y d j = Inr (rows_of 6 (grid_health y d j))"
    by (simp add: grid_data_def reshape_6_5_def len)
  have rows: "\<forall>r<6. length (rows_of 6 (grid_health y d j) ! r) = 5 \<and>
      (\<forall>c<5. rows_of 6 (grid_health y d j) ! r ! c = grid_health y d j ! (5 * r + c))"
    by (auto simp: rows_of_nth len)
  show ?thesis
    using len vals gd rows rows_of_length [of 6 "grid_health y d j"] by blast
qed

theorem block_grid_witness:
  "(29::nat) < 30 \<and> grid_health 3 2 (\<lambda>i. if i = 29 then 12 / 10 else 1) ! 29 = 424 / 10 \<and>
   grid_health 3 2 (\<lambda>i. if i = 29 then 12 / 10 else 1) ! 0 = 52 \<and>
   grid_health 9 2 (\<lambda>i. 1) ! 0 = 0 \<and>
   (\<exists>rows. grid_data 3 2 (\<lambda>i. if i = 29 then 12 / 10 else 1) = Inr rows \<and>
      length rows = 6 \<and> length (rows ! 5) = 5 \<and> rows ! 5 ! 4 = 424 / 10)"
proof -
  let ?j = "\<lambda>i::nat. if i = 29 then 12 / 10 else (1::real)"
  from block_grid [of 3 2 ?j] obtain rows where
    v: "\<forall>i<30. grid_health 3 2 ?j ! i = max 0 (100 - real_of_int 3 * 8 * 2 * ?j i)"
    and g: "grid_data 3 2 ?j = Inr rows" and l: "length rows = 6"
    and r: "\<forall>r<6. length (rows ! r) = 5 \<and> (\<forall>c<5. rows ! r ! c = grid_health 3 2 ?j ! (5 * r + c))"
    by blast
  have v29: "grid_health 3 2 ?j ! 29 = 424 / 10" and v0: "grid_health 3 2 ?j ! 0 = 52"
    using v by simp_all
  have r5: "length (rows ! 5) = 5" and r54: "rows ! 5 ! 4 = grid_health 3 2 ?j ! 29"
    using r by simp_all
  have z: "grid_health 9 2 (\<lambda>i. 1) ! 0 = 0"
    using block_grid [of 9 2 "\<lambda>i. 1"] by simp
  show ?thesis
    using v29 v0 z g l r5 r54 by simp
qed

text \<open>
  Claim C10. Although the grid values are clamped below only, each of them is below 100
  (and at least 0) whenever the years are at least 1, the temperature is in \<open>[20, 40]\<close>
  and every jitter draw is in \<open>[0.8, 1.2]\<close>: the amount subtracted from 100 is positive.
\<close>

theorem grid_below_100:
  assumes "1 \<le> y" and "20 \<le> t" and "t \<le> 40"
    and "\<forall>i<30. 8 / 10 \<le> j i \<and> j i \<le> 12 / 10"
  shows "\<forall>v \<in> set (grid_health y (degradation_factor t) j). 0 \<le> v \<and> v < 100"
proof
  fix v
  assume "v \<in> set (grid_health y (degradation_factor t) j)"
  then obtain i where i: "i < 30"
    and v: "v = max 0 (block_health y (degradation_factor t) (j i))"
    by (auto simp: grid_health_eq)
  have jp: "0 < j i"
    using assms(4) i by force
  have yp: "0 < real_of_int y"
    using assms(1) by simp
  have "0 < real_of_int y * 8 * degradation_factor t * j i"
    using jp yp degradation_factor_pos [of t] by simp
  then show "0 \<le> v \<and> v < 100"
    by (simp add: v block_health_def)
qed

theorem grid_below_100_witness:
  "(1::int) \<le> 1 \<and> (20::int) \<le> 20 \<and> (20::int) \<le> 40 \<and>
   (8 / 10 :: real) \<le> 8 / 10 \<and> (8 / 10 :: real) \<le> 12 / 10 \<and>
   0 \<le> grid_health 1 (degradation_factor 20) (\<lambda>i. 8 / 10) ! 7 \<and>
   grid_health 1 (degradation_factor 20) (\<lambda>i. 8 / 10) ! 7 < 100"
proof -
  have "grid_health 1 (degradation_factor 20) (\<lambda>i. 8 / 10) ! 7
      \<in> set (grid_health 1 (degradation_factor 20) (\<lambda>i. 8 / 10))"
    by (rule nth_mem) (simp add: grid_health_eq)
  then show ?thesis
    using grid_below_100 [of 1 20 "\<lambda>i. 8 / 10"] by simp
qed

subsection \<open>The block selector of \<open>editapp.py\<close>\<close>

text \<open>
  Claim C9. Two runs of editapp.py with the same temperature, years, cost, random draws,
  rounding and session state that differ only in the selected block (any two of the 30
  identifiers) compute the same outputs: health, status, colour, alerts, new session
  state, risk value, gauge value, decay curve and block grid.
\<close>

theorem selected_block_unused:
  assumes "b1 \<in> set available_blocks" and "b2 \<in> set available_blocks"
  shows "editapp fl (inp\<lparr>selected_block := b1\<rparr>) rnd ss =
         editapp fl (inp\<lparr>selected_block := b2\<rparr>) rnd ss"
  by (simp add: editapp_def)

theorem selected_block_unused_witness:
  "''Block_1'' \<in> set available_blocks \<and> ''Block_30'' \<in> set available_blocks \<and>
   editapp \<lparr>err_pow = 1 / 2 ^ 52, err_mul = - (1 / 2 ^ 54), err_sub = 0\<rparr>
     \<lparr>selected_block = ''Block_1'', temp_input = 30, time_projection = 3,
            replacement_cost = 500\<rparr>
     \<lparr>months_to_decay = 5, jitter = (\<lambda>i. 1)\<rparr> Map.empty =
   editapp \<lparr>err_pow = 1 / 2 ^ 52, err_mul = - (1 / 2 ^ 54), err_sub = 0\<rparr>
     \<lparr>selected_block = ''Block_30'', temp_input = 30, time_projection = 3,
            replacement_cost = 500\<rparr>
     \<lparr>months_to_decay = 5, jitter = (\<lambda>i. 1)\<rparr> Map.empty"
proof -
  have m1: "''Block_1'' \<in> set available_blocks"
    by code_simp
  have m2: "''Block_30'' \<in> set available_blocks"
    by code_simp
  show ?thesis
    using m1 m2
      selected_block_unused [OF m1 m2,
        of "\<lparr>err_pow = 1 / 2 ^ 52, err_mul = - (1 / 2 ^ 54), err_sub = 0\<rparr>"
           "\<lparr>selected_block = ''Block_7'', temp_input = 30, time_projection = 3,
             replacement_cost = 500\<rparr>"
           "\<lparr>months_to_decay = 5, jitter = (\<lambda>i. 1)\<rparr>" Map.empty]
    by simp
qed

end
